theory Spec2Isabelle
  imports Main "HOL-Library.Word"
begin

section \<open>Data model of \<open>ChatInterface.jsx\<close>\<close>

text \<open>
  Text that flows through the component at run time (message content, the value of the
  input box, the pending input) is a JavaScript string: a sequence of UTF-16 code units.
  Class names, tag names and the literal captions of the JSX are plain strings.
\<close>

type_synonym jstring = "16 word list"

text \<open>
  \<open>msg.loading\<close>: the per-stage in-flight flags. The object itself is optional
  (\<open>msg.loading?.stage1\<close>); a key that is absent reads as a false flag.
\<close>

record loading_flags =
  loading_stage1 :: bool
  loading_stage2 :: bool
  loading_stage3 :: bool

text \<open>
  \<open>msg.metadata\<close>, optional as a whole (\<open>msg.metadata?.label_to_model\<close>). The
  payload type \<open>'d\<close> stands for the values delivered by the backend (arrays and objects,
  whose shape is declared outside this file); a slot that holds no payload is \<open>None\<close>.
\<close>

record 'd metadata =
  label_to_model :: "'d option"
  aggregate_rankings :: "'d option"

record 'd message =
  role :: string
  content :: jstring
  loading :: "loading_flags option"
  stage1 :: "'d option"
  stage2 :: "'d option"
  stage3 :: "'d option"
  metadata :: "'d metadata option"

record 'd conversation =
  messages :: "'d message list"

text \<open>
  The element tree a render function returns. Host elements carry their tag, their
  \<open>className\<close> and their children; elements of other components carry their props and
  are not expanded here, exactly as JSX leaves them. A JSX child \<open>{c && <X/>}\<close> whose
  condition is false renders nothing, so it contributes no child.
\<close>

datatype 'd vnode =
    Tag string string "'d vnode list"
  | Text string
  | ReactMarkdownEl jstring
  | Stage1El 'd
  | Stage2El 'd "'d option" "'d option"
  | Stage3El 'd
  | UserMessageEl nat jstring
  | AssistantMessageEl nat "'d message" bool
  | EndRefEl
  | TextareaEl jstring bool
  | ButtonEl string string bool string

text \<open>The props object of \<open>AssistantMessage\<close>: \<open>{ msg, isActive }\<close>.\<close>

record 'd assistant_props =
  msg :: "'d message"
  isActive :: bool

section \<open>The two message components\<close>

definition UserMessage :: "jstring \<Rightarrow> 'd vnode" where
  "UserMessage cont =
     Tag ''div'' ''message-group''
       [Tag ''div'' ''user-message''
          [Tag ''div'' ''message-label'' [Text ''You''],
           Tag ''div'' ''message-content''
             [Tag ''div'' ''markdown-content'' [ReactMarkdownEl cont]]]]"

definition stage_loading :: "string \<Rightarrow> 'd vnode" where
  "stage_loading caption =
     Tag ''div'' ''stage-loading''
       [Tag ''div'' ''spinner'' [], Tag ''span'' [] [Text caption]]"

text \<open>\<open>msg.loading?.stageN\<close>: false when \<open>msg.loading\<close> is absent.\<close>

definition loading_flag :: "(loading_flags \<Rightarrow> bool) \<Rightarrow> 'd message \<Rightarrow> bool" where
  "loading_flag sel m = (case loading m of None \<Rightarrow> False | Some l \<Rightarrow> sel l)"

text \<open>\<open>msg.metadata?.key\<close>: absent when \<open>msg.metadata\<close> is absent.\<close>

definition metadata_field :: "('d metadata \<Rightarrow> 'd option) \<Rightarrow> 'd message \<Rightarrow> 'd option" where
  "metadata_field sel m = (case metadata m of None \<Rightarrow> None | Some md \<Rightarrow> sel md)"

definition AssistantMessage :: "'d assistant_props \<Rightarrow> 'd vnode" where
  "AssistantMessage props =
     Tag ''div'' ''message-group''
       [Tag ''div'' ''assistant-message''
          ([Tag ''div'' ''message-label'' [Text ''LLM Council'']]
           @ (if loading_flag loading_stage1 (msg props)
              then [stage_loading ''Running Stage 1: Collecting individual responses...'']
              else [])
           @ (case stage1 (msg props) of
                Some responses \<Rightarrow> [Stage1El responses]
              | None \<Rightarrow> [])
           @ (if loading_flag loading_stage2 (msg props)
              then [stage_loading ''Running Stage 2: Peer rankings...'']
              else [])
           @ (case stage2 (msg props) of
                Some rankings \<Rightarrow>
                  [Stage2El rankings (metadata_field label_to_model (msg props))
                     (metadata_field aggregate_rankings (msg props))]
              | None \<Rightarrow> [])
           @ (if loading_flag loading_stage3 (msg props)
              then [stage_loading ''Running Stage 3: Final synthesis...'']
              else [])
           @ (case stage3 (msg props) of
                Some finalResponse \<Rightarrow> [Stage3El finalResponse]
              | None \<Rightarrow> []))]"

text \<open>
  The comparator handed to \<open>memo\<close> as its second argument: it answers whether the
  previous output may stand for the next props.
\<close>

definition AssistantMessage_areEqual :: "'d assistant_props \<Rightarrow> 'd assistant_props \<Rightarrow> bool" where
  "AssistantMessage_areEqual prevProps nextProps =
     (if isActive prevProps \<or> isActive nextProps then False else True)"

text \<open>
  \<open>UserMessage\<close> is wrapped by \<open>memo\<close> with no comparator, so React compares the props
  objects key by key with \<open>Object.is\<close>. The only prop is \<open>content\<close>, a string, and
  \<open>Object.is\<close> on strings is equality of their code units.
\<close>

definition UserMessage_shallowEqual :: "jstring \<Rightarrow> jstring \<Rightarrow> bool" where
  "UserMessage_shallowEqual prevContent nextContent = (prevContent = nextContent)"

section \<open>\<open>memo\<close>: one cell of a memoised component\<close>

text \<open>
  What React keeps for a memoised component instance: the props of the last call of the
  component function, and the element tree that call returned. The tree is an object
  on the heap: \<open>memoized\<close> holds the props, the reference of the tree and the tree.
  A reference is taken fresh from \<open>next_ref\<close> at every call, so that two outputs are
  the same object exactly when their references agree. \<open>renders\<close> counts the calls of
  the component function.
\<close>

record ('p, 'f) memo_cell =
  memoized :: "('p \<times> nat \<times> 'f) option"
  next_ref :: nat
  renders :: nat

definition unmounted :: "('p, 'f) memo_cell" where
  "unmounted = \<lparr>memoized = None, next_ref = 0, renders = 0\<rparr>"

definition call_component :: "('p \<Rightarrow> 'f) \<Rightarrow> 'p \<Rightarrow> ('p, 'f) memo_cell \<Rightarrow> ('p, 'f) memo_cell" where
  "call_component component nextProps c =
     c\<lparr>memoized := Some (nextProps, next_ref c, component nextProps),
       next_ref := Suc (next_ref c),
       renders := Suc (renders c)\<rparr>"

text \<open>
  One evaluation of the cell with the next props. On mount the component is called. On an
  update the comparator sees the props of the last call and the next props; when it
  answers true the cell is left as it is (the old output object stands), otherwise the
  component is called again.
\<close>

definition memo :: "('p \<Rightarrow> 'f) \<Rightarrow> ('p \<Rightarrow> 'p \<Rightarrow> bool) \<Rightarrow> 'p \<Rightarrow> ('p, 'f) memo_cell \<Rightarrow> ('p, 'f) memo_cell" where
  "memo component compare nextProps c =
     (case memoized c of
        None \<Rightarrow> call_component component nextProps c
      | Some (prevProps, r, out) \<Rightarrow>
          if compare prevProps nextProps then c
          else call_component component nextProps c)"

text \<open>The output the cell shows: the reference of the element tree and the tree.\<close>

definition cell_output :: "('p, 'f) memo_cell \<Rightarrow> (nat \<times> 'f) option" where
  "cell_output c = map_option snd (memoized c)"

text \<open>A cell evaluated with one props value after the other, oldest first.\<close>

definition evaluations :: "('p \<Rightarrow> ('p, 'f) memo_cell \<Rightarrow> ('p, 'f) memo_cell) \<Rightarrow> 'p list \<Rightarrow> ('p, 'f) memo_cell \<Rightarrow> ('p, 'f) memo_cell" where
  "evaluations step ps c = foldl (\<lambda>c p. step p c) c ps"

text \<open>
  References are handed out in increasing order, so the reference a cell holds is older
  than the next one to be handed out.
\<close>

definition ref_ok :: "('p, 'f) memo_cell \<Rightarrow> bool" where
  "ref_ok c = (case memoized c of None \<Rightarrow> True | Some (q, r, out) \<Rightarrow> r < next_ref c)"

definition UserMessage_memo :: "jstring \<Rightarrow> (jstring, 'd vnode) memo_cell \<Rightarrow> (jstring, 'd vnode) memo_cell" where
  "UserMessage_memo = memo UserMessage UserMessage_shallowEqual"

definition AssistantMessage_memo :: "'d assistant_props \<Rightarrow> ('d assistant_props, 'd vnode) memo_cell \<Rightarrow> ('d assistant_props, 'd vnode) memo_cell" where
  "AssistantMessage_memo = memo AssistantMessage AssistantMessage_areEqual"

section \<open>The controller \<open>ChatInterface\<close>\<close>

subsection \<open>\<open>String.prototype.trim\<close>\<close>

text \<open>
  The code units \<open>trim\<close> strips: ECMAScript's WhiteSpace (tab, vertical tab, form feed,
  the byte order mark and the space separators) and LineTerminator.
\<close>

definition isWhiteSpace :: "16 word \<Rightarrow> bool" where
  "isWhiteSpace c =
     (c \<in> {0x0009, 0x000A, 0x000B, 0x000C, 0x000D, 0x0020, 0x00A0, 0x1680,
            0x2028, 0x2029, 0x202F, 0x205F, 0x3000, 0xFEFF}
      \<or> (0x2000 \<le> c \<and> c \<le> 0x200A))"

definition trim :: "jstring \<Rightarrow> jstring" where
  "trim s = rev (dropWhile isWhiteSpace (rev (dropWhile isWhiteSpace s)))"

subsection \<open>State, effects and handlers\<close>

text \<open>
  What the component does to the outside is recorded as the list of calls it made,
  oldest first. \<open>setTimeout(cb, 0)\<close> only queues its callback: the queue is \<open>timers\<close>,
  and the callback runs after the current pass, when the queue is drained.
\<close>

datatype call =
    PreventDefault
  | SendMessage jstring
  | PendingInputConsumed
  | Focus

datatype timer = FocusTextarea

text \<open>
  \<open>input\<close> is the \<open>useState\<close> value; \<open>effect_deps\<close> is the dependency array
  \<open>[pendingInput]\<close> of the last pass (\<open>None\<close> before the first pass).
\<close>

record chat_state =
  input :: jstring
  calls :: "call list"
  timers :: "timer list"
  effect_deps :: "jstring option option"

text \<open>The body of the effect that recovers the input of a stopped generation.\<close>

definition pendingInput_effect :: "jstring option \<Rightarrow> chat_state \<Rightarrow> chat_state" where
  "pendingInput_effect pendingInput st =
     (case pendingInput of
        None \<Rightarrow> st
      | Some text \<Rightarrow>
          st\<lparr>input := text,
             calls := calls st @ [PendingInputConsumed],
             timers := timers st @ [FocusTextarea]\<rparr>)"

text \<open>
  \<open>useEffect(body, [pendingInput])\<close> after a pass: the body runs on the first pass and
  whenever \<open>pendingInput\<close> differs from its value at the pass before.
\<close>

definition useEffect_pendingInput :: "jstring option \<Rightarrow> chat_state \<Rightarrow> chat_state" where
  "useEffect_pendingInput pendingInput st =
     (if effect_deps st = Some pendingInput then st
      else (pendingInput_effect pendingInput st)\<lparr>effect_deps := Some pendingInput\<rparr>)"

text \<open>
  A queued callback runs: \<open>textareaRef.current?.focus()\<close> focuses the input box when it
  is mounted (\<open>textareaRef\<close> holds it) and does nothing otherwise.
\<close>

definition run_timers :: "bool \<Rightarrow> chat_state \<Rightarrow> chat_state" where
  "run_timers textareaRef st =
     st\<lparr>calls := calls st @ (if textareaRef then map (\<lambda>t. Focus) (timers st) else []),
        timers := []\<rparr>"

definition handleSubmit :: "bool \<Rightarrow> chat_state \<Rightarrow> chat_state" where
  "handleSubmit isLoading st =
     (let st1 = st\<lparr>calls := calls st @ [PreventDefault]\<rparr>
      in if trim (input st1) \<noteq> [] \<and> \<not> isLoading
         then st1\<lparr>calls := calls st1 @ [SendMessage (input st1)], input := []\<rparr>
         else st1)"

definition handleKeyDown :: "string \<Rightarrow> bool \<Rightarrow> bool \<Rightarrow> chat_state \<Rightarrow> chat_state" where
  "handleKeyDown key shiftKey isLoading st =
     (if key = ''Enter'' \<and> \<not> shiftKey
      then handleSubmit isLoading (st\<lparr>calls := calls st @ [PreventDefault]\<rparr>)
      else st)"

subsection \<open>Rendering\<close>

text \<open>\<open>Array.prototype.map\<close> with its index argument.\<close>

definition map_index :: "('a \<Rightarrow> nat \<Rightarrow> 'b) \<Rightarrow> 'a list \<Rightarrow> 'b list" where
  "map_index f xs = map (\<lambda>(i, x). f x i) (enumerate 0 xs)"

text \<open>The callback of \<open>conversation.messages.map\<close>.\<close>

definition message_cell :: "'d conversation \<Rightarrow> bool \<Rightarrow> 'd message \<Rightarrow> nat \<Rightarrow> 'd vnode" where
  "message_cell conv isLoading m index =
     (if role m = ''user'' then UserMessageEl index (content m)
      else (let isLastAssistant =
                  (isLoading \<and> int index = int (length (messages conv)) - 1)
            in AssistantMessageEl index m isLastAssistant))"

definition ChatInterface :: "'d conversation option \<Rightarrow> bool \<Rightarrow> jstring \<Rightarrow> 'd vnode" where
  "ChatInterface conversation isLoading inp =
     (case conversation of
        None \<Rightarrow>
          Tag ''div'' ''chat-interface''
            [Tag ''div'' ''empty-state''
               [Tag ''h2'' [] [Text ''Welcome to LLM Council''],
                Tag ''p'' [] [Text ''Create a new conversation to get started'']]]
      | Some conv \<Rightarrow>
          Tag ''div'' ''chat-interface''
            [Tag ''div'' ''messages-container''
               ((if length (messages conv) = 0
                 then [Tag ''div'' ''empty-state''
                         [Tag ''h2'' [] [Text ''Start a conversation''],
                          Tag ''p'' [] [Text ''Ask a question to consult the LLM Council'']]]
                 else map_index (message_cell conv isLoading) (messages conv))
                @ (if isLoading
                   then [Tag ''div'' ''loading-indicator''
                           [Tag ''div'' ''spinner'' [],
                            Tag ''span'' [] [Text ''Consulting the council...'']]]
                   else [])
                @ [EndRefEl]),
             Tag ''form'' ''input-form''
               [TextareaEl inp isLoading,
                if isLoading
                then ButtonEl ''button'' ''stop-button'' False ''Stop''
                else ButtonEl ''submit'' ''send-button'' (trim inp = []) ''Send'']])"

section \<open>Reading a rendered tree\<close>

text \<open>The message cells of a tree, in document order.\<close>

fun message_cells :: "'d vnode \<Rightarrow> 'd vnode list" where
  "message_cells (Tag t c ks) = concat (map message_cells ks)"
| "message_cells (UserMessageEl k cont) = [UserMessageEl k cont]"
| "message_cells (AssistantMessageEl k m a) = [AssistantMessageEl k m a]"
| "message_cells _ = []"

text \<open>
  The \<open>isActive\<close> prop a cell element carries. Only \<open>AssistantMessage\<close> takes the prop;
  a \<open>UserMessage\<close> element has none and is never active.
\<close>

fun cell_isActive :: "'d vnode \<Rightarrow> bool" where
  "cell_isActive (AssistantMessageEl k m a) = a"
| "cell_isActive _ = False"

text \<open>The children of the host elements with a given class name, in document order.\<close>

fun children_of_class :: "string \<Rightarrow> 'd vnode \<Rightarrow> 'd vnode list" where
  "children_of_class cls (Tag t c ks) =
     (if c = cls then ks else concat (map (children_of_class cls) ks))"
| "children_of_class cls _ = []"

text \<open>The host elements with a given class name, in document order.\<close>

fun elements_of_class :: "string \<Rightarrow> 'd vnode \<Rightarrow> 'd vnode list" where
  "elements_of_class cls (Tag t c ks) =
     (if c = cls then [Tag t c ks] else concat (map (elements_of_class cls) ks))"
| "elements_of_class cls _ = []"

fun is_Stage1El :: "'d vnode \<Rightarrow> bool" where
  "is_Stage1El (Stage1El d) = True"
| "is_Stage1El _ = False"

fun is_Stage2El :: "'d vnode \<Rightarrow> bool" where
  "is_Stage2El (Stage2El d lm ar) = True"
| "is_Stage2El _ = False"

fun is_Stage3El :: "'d vnode \<Rightarrow> bool" where
  "is_Stage3El (Stage3El d) = True"
| "is_Stage3El _ = False"

text \<open>
  The sub-fragment of one stage inside an assistant cell: the children that are the
  stage's loading indicator (told apart by its caption) or the stage's own element.
\<close>

definition stage_children :: "string \<Rightarrow> ('d vnode \<Rightarrow> bool) \<Rightarrow> 'd vnode list \<Rightarrow> 'd vnode list" where
  "stage_children caption is_data ks =
     filter (\<lambda>k. k = stage_loading caption \<or> is_data k) ks"

text \<open>The captions of the three stage loading indicators.\<close>

definition caption1 :: string where
  "caption1 = ''Running Stage 1: Collecting individual responses...''"

definition caption2 :: string where
  "caption2 = ''Running Stage 2: Peer rankings...''"

definition caption3 :: string where
  "caption3 = ''Running Stage 3: Final synthesis...''"

text \<open>
  The three fixed fragments of the controller: the placeholder shown when no conversation
  is selected, the one shown for a conversation without messages, and the stand-alone
  indicator of a generation in progress.
\<close>

definition welcome_placeholder :: "'d vnode" where
  "welcome_placeholder =
     Tag ''div'' ''empty-state''
       [Tag ''h2'' [] [Text ''Welcome to LLM Council''],
        Tag ''p'' [] [Text ''Create a new conversation to get started'']]"

definition start_placeholder :: "'d vnode" where
  "start_placeholder =
     Tag ''div'' ''empty-state''
       [Tag ''h2'' [] [Text ''Start a conversation''],
        Tag ''p'' [] [Text ''Ask a question to consult the LLM Council'']]"

definition loading_indicator :: "'d vnode" where
  "loading_indicator =
     Tag ''div'' ''loading-indicator''
       [Tag ''div'' ''spinner'' [], Tag ''span'' [] [Text ''Consulting the council...'']]"

text \<open>The texts handed to \<open>onSendMessage\<close> so far, oldest first.\<close>

definition sent :: "chat_state \<Rightarrow> jstring list" where
  "sent st = concat (map (\<lambda>c. case c of SendMessage t \<Rightarrow> [t] | _ \<Rightarrow> []) (calls st))"

text \<open>A text that is empty or holds nothing but white space.\<close>

definition blank :: "jstring \<Rightarrow> bool" where
  "blank s = list_all isWhiteSpace s"

section \<open>The stage-2 renderer\<close>

text \<open>
  The data of the stage-2 renderer: a ranking is the model that ranked and the labels it
  ranked, best first; the label-to-model mapping is a list of label and model pairs; the
  rendered fragment has one row of displayed names per ranking and, apart from these
  rows, the aggregate order.
\<close>

record ranking =
  ranking_model :: string
  parsed_ranking :: "string list"

record stage2_fragment =
  ranking_rows :: "(string \<times> string list) list"
  aggregate_rows :: "string list"

datatype render_error = RenderFailed

text \<open>
  Modelled from the spec: the name displayed for a label. The component \<open>Stage2\<close>
  (imported from \<open>./Stage2\<close>) is missing from the sources; \<open>ChatInterface.jsx\<close> only
  hands it \<open>rankings\<close>, \<open>labelToModel\<close> and \<open>aggregateRankings\<close>. The spec has a label
  resolved through the label-to-model mapping, and a label the mapping does not hold
  displayed as the raw label.
\<close>

definition resolve_label :: "(string \<times> string) list \<Rightarrow> string \<Rightarrow> string" where
  "resolve_label labelToModel label =
     (case map_of labelToModel label of Some model \<Rightarrow> model | None \<Rightarrow> label)"

text \<open>
  Modelled from the spec: the component \<open>Stage2\<close>, missing from the sources as said
  above. The spec has it render each ranking with the model identities resolved through
  the mapping, render the aggregate order apart from the per-model rankings, and never
  fail the whole render on malformed ranking data.
\<close>

definition Stage2 :: "ranking list \<Rightarrow> (string \<times> string) list \<Rightarrow> string list \<Rightarrow> render_error + stage2_fragment" where
  "Stage2 rankings labelToModel aggregateRankings =
     Inr \<lparr>ranking_rows =
            map (\<lambda>r. (ranking_model r, map (resolve_label labelToModel) (parsed_ranking r)))
              rankings,
          aggregate_rows = aggregateRankings\<rparr>"

section \<open>The memoised assistant cell\<close>

lemma evaluations_snoc:
  "evaluations step (ps @ [p]) c = step p (evaluations step ps c)"
  by (simp add: evaluations_def)

lemma AssistantMessage_memo_keeps_isActive:
  "\<exists>q r out. memoized (AssistantMessage_memo p c) = Some (q, r, out) \<and> isActive q = isActive p"
  by (auto simp: AssistantMessage_memo_def memo_def call_component_def
        AssistantMessage_areEqual_def split: option.splits)

lemma ref_ok_memo: "ref_ok c \<Longrightarrow> ref_ok (memo component compare p c)"
  by (auto simp: ref_ok_def memo_def call_component_def split: option.splits)

lemma ref_ok_evaluations:
  "ref_ok c \<Longrightarrow> ref_ok (evaluations (memo component compare) ps c)"
  by (induction ps arbitrary: c) (simp_all add: evaluations_def ref_ok_memo)

lemma ref_ok_unmounted: "ref_ok unmounted"
  by (simp add: ref_ok_def unmounted_def)

lemma memo_step_cases:
  assumes "memoized c = Some (q, r, out)"
  shows "memo component compare p c =
           (if compare q p then c else call_component component p c)"
  using assms by (simp add: memo_def)

text \<open>
  Claim C1. Take an assistant cell that has been evaluated at least once since it was
  mounted, last with the props \<open>prev\<close>, and evaluate it with the props \<open>nxt\<close>. The
  component function is called again exactly when \<open>isActive\<close> holds in \<open>nxt\<close> or held
  in \<open>prev\<close>, and the call returns a fresh object. When the message is inactive at both
  evaluations the comparator answers true, the component function is not called, and the
  cell shows the very object it showed before: same reference, same tree.
\<close>

theorem C1_recompute_iff_active:
  fixes prev nxt :: "'d assistant_props"
  shows "let c = evaluations AssistantMessage_memo (ps @ [prev]) unmounted;
             c' = AssistantMessage_memo nxt c
         in (renders c' = Suc (renders c) \<longleftrightarrow> isActive nxt \<or> isActive prev)
          \<and> (renders c' = renders c \<longleftrightarrow> \<not> (isActive nxt \<or> isActive prev))
          \<and> (isActive nxt \<or> isActive prev \<longrightarrow>
               cell_output c' = Some (next_ref c, AssistantMessage nxt)
               \<and> map_option fst (cell_output c') \<noteq> map_option fst (cell_output c))
          \<and> (\<not> isActive prev \<and> \<not> isActive nxt \<longrightarrow>
               AssistantMessage_areEqual prev nxt
               \<and> cell_output c \<noteq> None \<and> cell_output c' = cell_output c)"
proof -
  define c0 where "c0 = evaluations AssistantMessage_memo ps (unmounted :: ('d assistant_props, 'd vnode) memo_cell)"
  define c where "c = AssistantMessage_memo prev c0"
  have "ref_ok c0"
    unfolding c0_def AssistantMessage_memo_def
    by (rule ref_ok_evaluations [OF ref_ok_unmounted])
  then have ok: "ref_ok c"
    unfolding c_def AssistantMessage_memo_def by (rule ref_ok_memo)
  obtain q r out where m: "memoized c = Some (q, r, out)" and a: "isActive q = isActive prev"
    using AssistantMessage_memo_keeps_isActive [of prev c0] unfolding c_def by blast
  have fresh: "r < next_ref c"
    using ok m by (simp add: ref_ok_def)
  have step: "AssistantMessage_memo nxt c =
      (if AssistantMessage_areEqual q nxt then c else call_component AssistantMessage nxt c)"
    unfolding AssistantMessage_memo_def using m by (rule memo_step_cases)
  have eq: "AssistantMessage_areEqual q nxt = (\<not> (isActive nxt \<or> isActive prev))"
    using a by (auto simp: AssistantMessage_areEqual_def)
  have "(renders (AssistantMessage_memo nxt c) = Suc (renders c) \<longleftrightarrow> isActive nxt \<or> isActive prev)
      \<and> (renders (AssistantMessage_memo nxt c) = renders c \<longleftrightarrow> \<not> (isActive nxt \<or> isActive prev))
      \<and> (isActive nxt \<or> isActive prev \<longrightarrow>
            cell_output (AssistantMessage_memo nxt c) = Some (next_ref c, AssistantMessage nxt)
            \<and> map_option fst (cell_output (AssistantMessage_memo nxt c))
                \<noteq> map_option fst (cell_output c))
      \<and> (\<not> isActive prev \<and> \<not> isActive nxt \<longrightarrow>
            AssistantMessage_areEqual prev nxt
            \<and> cell_output c \<noteq> None \<and> cell_output (AssistantMessage_memo nxt c) = cell_output c)"
    unfolding step eq using m fresh
    by (auto simp: call_component_def cell_output_def AssistantMessage_areEqual_def)
  then show ?thesis
    unfolding Let_def evaluations_snoc c_def c0_def .
qed

theorem C1_recompute_iff_active_witness:
  "let m1 = \<lparr>role = ''assistant'', content = [], loading = None, stage1 = Some (1::nat),
            stage2 = Some 2, stage3 = None, metadata = None\<rparr>;
       m2 = \<lparr>role = ''assistant'', content = [], loading = None, stage1 = Some (1::nat),
            stage2 = Some 2, stage3 = Some 3, metadata = None\<rparr>;
       c = evaluations AssistantMessage_memo ([] @ [\<lparr>msg = m1, isActive = False\<rparr>]) unmounted;
       c' = AssistantMessage_memo \<lparr>msg = m2, isActive = False\<rparr> c;
       c'' = AssistantMessage_memo \<lparr>msg = m2, isActive = True\<rparr> c
   in AssistantMessage_areEqual \<lparr>msg = m1, isActive = False\<rparr> \<lparr>msg = m2, isActive = False\<rparr>
    \<and> renders c' = renders c
    \<and> cell_output c \<noteq> None
    \<and> cell_output c' = cell_output c
    \<and> renders c'' = Suc (renders c)
    \<and> cell_output c'' = Some (next_ref c, AssistantMessage \<lparr>msg = m2, isActive = True\<rparr>)"
proof -
  let ?m1 = "\<lparr>role = ''assistant'', content = [], loading = None, stage1 = Some (1::nat),
            stage2 = Some 2, stage3 = None, metadata = None\<rparr>"
  let ?m2 = "\<lparr>role = ''assistant'', content = [], loading = None, stage1 = Some (1::nat),
            stage2 = Some 2, stage3 = Some 3, metadata = None\<rparr>"
  note same = C1_recompute_iff_active [of "[]" "\<lparr>msg = ?m1, isActive = False\<rparr>"
      "\<lparr>msg = ?m2, isActive = False\<rparr>", unfolded Let_def]
  note active = C1_recompute_iff_active [of "[]" "\<lparr>msg = ?m1, isActive = False\<rparr>"
      "\<lparr>msg = ?m2, isActive = True\<rparr>", unfolded Let_def]
  have 1: "AssistantMessage_areEqual \<lparr>msg = ?m1, isActive = False\<rparr> \<lparr>msg = ?m2, isActive = False\<rparr>"
    using same by simp
  have 2: "renders (AssistantMessage_memo \<lparr>msg = ?m2, isActive = False\<rparr>
              (evaluations AssistantMessage_memo ([] @ [\<lparr>msg = ?m1, isActive = False\<rparr>]) unmounted))
           = renders (evaluations AssistantMessage_memo ([] @ [\<lparr>msg = ?m1, isActive = False\<rparr>]) unmounted)"
    using same by simp
  have 3: "cell_output (evaluations AssistantMessage_memo ([] @ [\<lparr>msg = ?m1, isActive = False\<rparr>])
              (unmounted :: (nat assistant_props, nat vnode) memo_cell)) \<noteq> None"
    using same by simp
  have 4: "cell_output (AssistantMessage_memo \<lparr>msg = ?m2, isActive = False\<rparr>
              (evaluations AssistantMessage_memo ([] @ [\<lparr>msg = ?m1, isActive = False\<rparr>]) unmounted))
           = cell_output (evaluations AssistantMessage_memo ([] @ [\<lparr>msg = ?m1, isActive = False\<rparr>]) unmounted)"
    using same by simp
  have 5: "renders (AssistantMessage_memo \<lparr>msg = ?m2, isActive = True\<rparr>
              (evaluations AssistantMessage_memo ([] @ [\<lparr>msg = ?m1, isActive = False\<rparr>]) unmounted))
           = Suc (renders (evaluations AssistantMessage_memo ([] @ [\<lparr>msg = ?m1, isActive = False\<rparr>]) unmounted))"
    using active by simp
  have 6: "cell_output (AssistantMessage_memo \<lparr>msg = ?m2, isActive = True\<rparr>
              (evaluations AssistantMessage_memo ([] @ [\<lparr>msg = ?m1, isActive = False\<rparr>]) unmounted))
           = Some (next_ref (evaluations AssistantMessage_memo ([] @ [\<lparr>msg = ?m1, isActive = False\<rparr>]) unmounted),
                   AssistantMessage \<lparr>msg = ?m2, isActive = True\<rparr>)"
    using active by simp
  show ?thesis
    unfolding Let_def by (intro conjI 1 2 3 4 5 6)
qed

section \<open>Classification of the messages\<close>

lemma concat_map_singletons:
  "(\<And>x. x \<in> set xs \<Longrightarrow> f x = [x]) \<Longrightarrow> concat (map f xs) = xs"
  by (induction xs) simp_all

lemma message_cells_message_cell:
  "message_cells (message_cell conv isLoading m i) = [message_cell conv isLoading m i]"
  by (simp add: message_cell_def Let_def)

lemma length_map_index: "length (map_index f xs) = length xs"
  by (simp add: map_index_def)

lemma nth_map_index: "i < length xs \<Longrightarrow> map_index f xs ! i = f (xs ! i) i"
  by (simp add: map_index_def nth_enumerate_eq)

lemma set_map_index: "x \<in> set (map_index f xs) \<Longrightarrow> \<exists>i < length xs. x = f (xs ! i) i"
  by (metis in_set_conv_nth length_map_index nth_map_index)

lemma message_cells_map_index:
  "concat (map message_cells (map_index (message_cell conv isLoading) ms))
     = map_index (message_cell conv isLoading) ms"
proof (rule concat_map_singletons)
  fix x assume "x \<in> set (map_index (message_cell conv isLoading) ms)"
  then have "\<exists>i < length ms. x = message_cell conv isLoading (ms ! i) i"
    by (rule set_map_index)
  then obtain i where "x = message_cell conv isLoading (ms ! i) i"
    by blast
  then show "message_cells x = [x]"
    by (simp only: message_cells_message_cell)
qed

lemma message_cells_ChatInterface:
  "messages conv \<noteq> [] \<Longrightarrow>
   message_cells (ChatInterface (Some conv) isLoading inp)
     = map_index (message_cell conv isLoading) (messages conv)"
  by (simp add: ChatInterface_def message_cells_map_index del: concat_eq_Nil_conv)

text \<open>
  Claim C2. For a conversation with at least one message the rendered tree holds one cell
  per message, in the order of the sequence, the cell at position \<open>i\<close> keyed \<open>i\<close> and made
  from message \<open>i\<close>. Its \<open>isActive\<close> is true exactly when the loading flag is set, the
  message is the last of the sequence and it is rendered as an assistant message (its role
  is not \<open>user\<close>); every other cell is inactive.
\<close>

theorem C2_isActive_classification:
  assumes "messages conv \<noteq> []" and "i < length (messages conv)"
  shows "let cells = message_cells (ChatInterface (Some conv) isLoading inp);
             m = messages conv ! i
         in length cells = length (messages conv)
          \<and> cells ! i = (if role m = ''user'' then UserMessageEl i (content m)
                         else AssistantMessageEl i m (isLoading \<and> i = length (messages conv) - 1))
          \<and> cell_isActive (cells ! i)
              = (isLoading \<and> i = length (messages conv) - 1 \<and> role m \<noteq> ''user'')"
proof -
  have last: "(int i = int (length (messages conv)) - 1) = (i = length (messages conv) - 1)"
    using assms(2) by linarith
  have cells: "message_cells (ChatInterface (Some conv) isLoading inp)
                 = map_index (message_cell conv isLoading) (messages conv)"
    using assms(1) by (rule message_cells_ChatInterface)
  have nth: "map_index (message_cell conv isLoading) (messages conv) ! i
               = message_cell conv isLoading (messages conv ! i) i"
    using assms(2) by (rule nth_map_index)
  show ?thesis
    unfolding Let_def cells nth length_map_index
    by (simp add: message_cell_def last)
qed

theorem C2_isActive_classification_witness:
  "let conv = \<lparr>messages =
         [\<lparr>role = ''user'', content = [0x68, 0x69], loading = None, stage1 = None,
           stage2 = None, stage3 = None, metadata = None\<rparr>,
          \<lparr>role = ''assistant'', content = [], loading = None, stage1 = Some (1::nat),
           stage2 = None, stage3 = None, metadata = None\<rparr>]\<rparr>;
       cells = message_cells (ChatInterface (Some conv) True [])
   in messages conv \<noteq> [] \<and> (1::nat) < length (messages conv)
      \<and> length cells = 2 \<and> cell_isActive (cells ! 1)
      \<and> cells ! 1 = AssistantMessageEl 1 (messages conv ! 1) True"
  using C2_isActive_classification [of
     "\<lparr>messages =
         [\<lparr>role = ''user'', content = [0x68, 0x69], loading = None, stage1 = None,
           stage2 = None, stage3 = None, metadata = None\<rparr>,
          \<lparr>role = ''assistant'', content = [], loading = None, stage1 = Some (1::nat),
           stage2 = None, stage3 = None, metadata = None\<rparr>]\<rparr>" 1 True "[]"]
  by (simp add: Let_def)

section \<open>The stages of an assistant cell\<close>

lemma stage_loading_inject [simp]: "(stage_loading a = (stage_loading b :: 'd vnode)) = (a = b)"
  by (simp add: stage_loading_def)

lemma stage_loading_not_data [simp]:
  "\<not> is_Stage1El (stage_loading a)" "\<not> is_Stage2El (stage_loading a)"
  "\<not> is_Stage3El (stage_loading a)"
  "stage_loading a \<noteq> Stage1El d" "stage_loading a \<noteq> Stage2El d lm ar"
  "stage_loading a \<noteq> Stage3El d"
  "Stage1El d \<noteq> stage_loading a" "Stage2El d lm ar \<noteq> stage_loading a"
  "Stage3El d \<noteq> stage_loading a"
  "stage_loading a \<noteq> Tag ''div'' ''message-label'' ks"
  "Tag ''div'' ''message-label'' ks \<noteq> stage_loading a"
  by (simp_all add: stage_loading_def)

lemma captions_distinct:
  "caption1 \<noteq> caption2" "caption1 \<noteq> caption3" "caption2 \<noteq> caption3"
  "caption2 \<noteq> caption1" "caption3 \<noteq> caption1" "caption3 \<noteq> caption2"
  by (simp_all add: caption1_def caption2_def caption3_def)

lemma AssistantMessage_children:
  "children_of_class ''assistant-message'' (AssistantMessage props) =
     [Tag ''div'' ''message-label'' [Text ''LLM Council'']]
     @ (if loading_flag loading_stage1 (msg props) then [stage_loading caption1] else [])
     @ (case stage1 (msg props) of Some d \<Rightarrow> [Stage1El d] | None \<Rightarrow> [])
     @ (if loading_flag loading_stage2 (msg props) then [stage_loading caption2] else [])
     @ (case stage2 (msg props) of
          Some d \<Rightarrow> [Stage2El d (metadata_field label_to_model (msg props))
                        (metadata_field aggregate_rankings (msg props))]
        | None \<Rightarrow> [])
     @ (if loading_flag loading_stage3 (msg props) then [stage_loading caption3] else [])
     @ (case stage3 (msg props) of Some d \<Rightarrow> [Stage3El d] | None \<Rightarrow> [])"
  unfolding AssistantMessage_def caption1_def caption2_def caption3_def
  by simp

lemma stage1_children:
  "stage_children caption1 is_Stage1El (children_of_class ''assistant-message'' (AssistantMessage props))
   = (if loading_flag loading_stage1 (msg props) then [stage_loading caption1] else [])
     @ (case stage1 (msg props) of Some d \<Rightarrow> [Stage1El d] | None \<Rightarrow> [])"
  unfolding AssistantMessage_children stage_children_def
  by (simp add: captions_distinct split: option.split)

lemma stage2_children:
  "stage_children caption2 is_Stage2El (children_of_class ''assistant-message'' (AssistantMessage props))
   = (if loading_flag loading_stage2 (msg props) then [stage_loading caption2] else [])
     @ (case stage2 (msg props) of
          Some d \<Rightarrow> [Stage2El d (metadata_field label_to_model (msg props))
                        (metadata_field aggregate_rankings (msg props))]
        | None \<Rightarrow> [])"
  unfolding AssistantMessage_children stage_children_def
  by (simp add: captions_distinct split: option.split)

lemma stage3_children:
  "stage_children caption3 is_Stage3El (children_of_class ''assistant-message'' (AssistantMessage props))
   = (if loading_flag loading_stage3 (msg props) then [stage_loading caption3] else [])
     @ (case stage3 (msg props) of Some d \<Rightarrow> [Stage3El d] | None \<Rightarrow> [])"
  unfolding AssistantMessage_children stage_children_def
  by (simp add: captions_distinct split: option.split)

text \<open>
  Claim C3. The assistant cell is the label followed by the stage-1, stage-2 and stage-3
  sub-fragments, in that order and with nothing else. The sub-fragment of a stage holds
  the stage's loading indicator exactly when the stage's loading flag is set, and the
  stage's element on the stage's data exactly when the data is present; it is empty when
  neither is the case. (Where flag and data are both set, the indicator comes first.)
\<close>

theorem C3_stage_subfragments:
  "let ks = children_of_class ''assistant-message'' (AssistantMessage props);
       s1 = stage_children caption1 is_Stage1El ks;
       s2 = stage_children caption2 is_Stage2El ks;
       s3 = stage_children caption3 is_Stage3El ks
   in AssistantMessage props
        = Tag ''div'' ''message-group'' [Tag ''div'' ''assistant-message'' ks]
    \<and> ks = Tag ''div'' ''message-label'' [Text ''LLM Council''] # s1 @ s2 @ s3
    \<and> s1 = (if loading_flag loading_stage1 (msg props) then [stage_loading caption1] else [])
           @ (case stage1 (msg props) of Some d \<Rightarrow> [Stage1El d] | None \<Rightarrow> [])
    \<and> s2 = (if loading_flag loading_stage2 (msg props) then [stage_loading caption2] else [])
           @ (case stage2 (msg props) of
                Some d \<Rightarrow> [Stage2El d (metadata_field label_to_model (msg props))
                              (metadata_field aggregate_rankings (msg props))]
              | None \<Rightarrow> [])
    \<and> s3 = (if loading_flag loading_stage3 (msg props) then [stage_loading caption3] else [])
           @ (case stage3 (msg props) of Some d \<Rightarrow> [Stage3El d] | None \<Rightarrow> [])"
proof -
  have shape: "AssistantMessage props
        = Tag ''div'' ''message-group''
            [Tag ''div'' ''assistant-message''
               (children_of_class ''assistant-message'' (AssistantMessage props))]"
    unfolding AssistantMessage_children
    unfolding AssistantMessage_def caption1_def caption2_def caption3_def by simp
  have order: "children_of_class ''assistant-message'' (AssistantMessage props)
     = Tag ''div'' ''message-label'' [Text ''LLM Council'']
       # stage_children caption1 is_Stage1El (children_of_class ''assistant-message'' (AssistantMessage props))
       @ stage_children caption2 is_Stage2El (children_of_class ''assistant-message'' (AssistantMessage props))
       @ stage_children caption3 is_Stage3El (children_of_class ''assistant-message'' (AssistantMessage props))"
    unfolding stage1_children stage2_children stage3_children
    unfolding AssistantMessage_children by simp
  show ?thesis
    unfolding Let_def
    using shape order stage1_children [of props] stage2_children [of props]
      stage3_children [of props]
    by blast
qed

theorem C3_stage_subfragments_witness:
  "let props = \<lparr>msg = \<lparr>role = ''assistant'', content = [],
                        loading = Some \<lparr>loading_stage1 = False, loading_stage2 = True,
                                        loading_stage3 = False\<rparr>,
                        stage1 = Some (3::nat), stage2 = None, stage3 = None,
                        metadata = None\<rparr>,
                 isActive = True\<rparr>;
       ks = children_of_class ''assistant-message'' (AssistantMessage props)
   in ks = [Tag ''div'' ''message-label'' [Text ''LLM Council''], Stage1El 3,
            stage_loading caption2]
    \<and> stage_children caption1 is_Stage1El ks = [Stage1El 3]
    \<and> stage_children caption2 is_Stage2El ks = [stage_loading caption2]
    \<and> stage_children caption3 is_Stage3El ks = []"
proof -
  let ?p = "\<lparr>msg = \<lparr>role = ''assistant'', content = [],
                        loading = Some \<lparr>loading_stage1 = False, loading_stage2 = True,
                                        loading_stage3 = False\<rparr>,
                        stage1 = Some (3::nat), stage2 = None, stage3 = None,
                        metadata = None\<rparr>,
                 isActive = True\<rparr>"
  let ?ks = "children_of_class ''assistant-message'' (AssistantMessage ?p)"
  note t = C3_stage_subfragments [of ?p, unfolded Let_def]
  note ord = t [THEN conjunct2, THEN conjunct1]
  note e1 = t [THEN conjunct2, THEN conjunct2, THEN conjunct1]
  note e2 = t [THEN conjunct2, THEN conjunct2, THEN conjunct2, THEN conjunct1]
  note e3 = t [THEN conjunct2, THEN conjunct2, THEN conjunct2, THEN conjunct2]
  have s1: "stage_children caption1 is_Stage1El ?ks = [Stage1El 3]"
    unfolding e1 by (simp add: loading_flag_def)
  have s2: "stage_children caption2 is_Stage2El ?ks = [stage_loading caption2]"
    unfolding e2 by (simp add: loading_flag_def)
  have s3: "stage_children caption3 is_Stage3El ?ks = []"
    unfolding e3 by (simp add: loading_flag_def)
  have ks: "?ks = [Tag ''div'' ''message-label'' [Text ''LLM Council''], Stage1El 3,
                   stage_loading caption2]"
    by (subst ord) (simp add: s1 s2 s3)
  show ?thesis
    unfolding Let_def by (intro conjI ks s1 s2 s3)
qed

section \<open>The memoised user cell\<close>

lemma UserMessage_memo_same:
  "memoized c = Some (cont, r, out) \<Longrightarrow> UserMessage_memo cont c = c"
  by (simp add: UserMessage_memo_def memo_def UserMessage_shallowEqual_def)

lemma UserMessage_memo_replicate:
  "memoized c = Some (cont, r, out) \<Longrightarrow> evaluations UserMessage_memo (replicate n cont) c = c"
  by (induction n) (simp_all add: evaluations_def UserMessage_memo_same)

text \<open>
  Claim C4. The controller hands a user message's cell its content and nothing else, so
  the loading flag, the text of the input box and the other messages never reach it. A
  cell evaluated again and again for the same user message calls the component function
  once, at the first evaluation, and shows the object of that call ever after.
\<close>

theorem C4_user_message_computed_once:
  fixes m :: "'d message"
  assumes "role m = ''user''"
  shows "message_cell conv isLoading m i = UserMessageEl i (content m)
       \<and> (let c1 = UserMessage_memo (content m) (unmounted :: (jstring, 'd vnode) memo_cell);
              cn = evaluations UserMessage_memo (replicate n (content m)) c1
          in renders c1 = 1 \<and> renders cn = 1
           \<and> cell_output c1 = Some (0, UserMessage (content m))
           \<and> cell_output cn = cell_output c1)"
proof -
  have m: "memoized (UserMessage_memo (content m) (unmounted :: (jstring, 'd vnode) memo_cell)) = Some (content m, 0, UserMessage (content m))"
    by (simp add: UserMessage_memo_def memo_def unmounted_def call_component_def)
  have r: "renders (UserMessage_memo (content m) (unmounted :: (jstring, 'd vnode) memo_cell)) = 1"
    by (simp add: UserMessage_memo_def memo_def unmounted_def call_component_def)
  show ?thesis
    using assms r by (simp add: Let_def UserMessage_memo_replicate [OF m] message_cell_def cell_output_def m)
qed

theorem C4_user_message_computed_once_witness:
  "let m = \<lparr>role = ''user'', content = [0x68, 0x69], loading = None, stage1 = None,
             stage2 = None, stage3 = None, metadata = None\<rparr> :: nat message;
       c1 = UserMessage_memo (content m) (unmounted :: (jstring, nat vnode) memo_cell);
       c4 = evaluations UserMessage_memo (replicate 3 (content m)) c1
   in role m = ''user''
    \<and> message_cell \<lparr>messages = [m]\<rparr> True m 0 = UserMessageEl 0 [0x68, 0x69]
    \<and> renders c4 = 1
    \<and> cell_output c4 = cell_output c1
    \<and> cell_output c1 = Some (0, UserMessage [0x68, 0x69])"
  using C4_user_message_computed_once [of
     "\<lparr>role = ''user'', content = [0x68, 0x69], loading = None, stage1 = None,
             stage2 = None, stage3 = None, metadata = None\<rparr> :: nat message"
     "\<lparr>messages = [\<lparr>role = ''user'', content = [0x68, 0x69], loading = None, stage1 = None,
             stage2 = None, stage3 = None, metadata = None\<rparr>]\<rparr>" True 0 3]
  by (simp add: Let_def)

section \<open>Recovery of the input of a stopped generation\<close>

text \<open>
  Claim C5. At a pass where the pending input has become a text (it differs from its
  value at the pass before, or there was no pass before), the effect puts that text
  into the input value whatever the input value was, calls \<open>onPendingInputConsumed\<close>
  once and queues one callback that focuses the input box; the focus itself happens
  only when the queue is run, after the pass. A further pass with the same pending
  input changes nothing, and a pass with the slot cleared restores nothing.
\<close>

theorem C5_input_recovery:
  assumes "effect_deps st \<noteq> Some (Some text)"
  shows "let st' = useEffect_pendingInput (Some text) st
         in input st' = text
          \<and> calls st' = calls st @ [PendingInputConsumed]
          \<and> timers st' = timers st @ [FocusTextarea]
          \<and> useEffect_pendingInput (Some text) st' = st'
          \<and> input (useEffect_pendingInput None st') = text
          \<and> calls (useEffect_pendingInput None st') = calls st'
          \<and> timers (useEffect_pendingInput None st') = timers st'
          \<and> calls (run_timers True st') = calls st' @ map (\<lambda>t. Focus) (timers st) @ [Focus]
          \<and> timers (run_timers True st') = []"
  using assms
  by (simp add: Let_def useEffect_pendingInput_def pendingInput_effect_def run_timers_def)

theorem C5_input_recovery_witness:
  "let st = \<lparr>input = [0x6E, 0x65, 0x77], calls = [], timers = [], effect_deps = Some None\<rparr>;
       st' = useEffect_pendingInput (Some [0x6F, 0x6C, 0x64]) st
   in effect_deps st \<noteq> Some (Some [0x6F, 0x6C, 0x64])
    \<and> input st' = [0x6F, 0x6C, 0x64]
    \<and> calls st' = [PendingInputConsumed]
    \<and> timers st' = [FocusTextarea]
    \<and> useEffect_pendingInput (Some [0x6F, 0x6C, 0x64]) st' = st'
    \<and> calls (run_timers True st') = [PendingInputConsumed, Focus]"
  using C5_input_recovery [of
      "\<lparr>input = [0x6E, 0x65, 0x77], calls = [], timers = [], effect_deps = Some None\<rparr>"
      "[0x6F, 0x6C, 0x64]"]
  by (simp add: Let_def)

section \<open>Submitting\<close>

lemma trim_eq_Nil_iff: "trim s = [] \<longleftrightarrow> blank s"
proof -
  have "dropWhile isWhiteSpace (rev (dropWhile isWhiteSpace s)) = []
          \<longleftrightarrow> dropWhile isWhiteSpace s = []"
  proof
    assume a: "dropWhile isWhiteSpace (rev (dropWhile isWhiteSpace s)) = []"
    show "dropWhile isWhiteSpace s = []"
    proof (rule ccontr)
      assume n: "dropWhile isWhiteSpace s \<noteq> []"
      then have "\<not> isWhiteSpace (hd (dropWhile isWhiteSpace s))"
        by (rule hd_dropWhile)
      moreover have "hd (dropWhile isWhiteSpace s) \<in> set (rev (dropWhile isWhiteSpace s))"
        using n by simp
      ultimately show False
        using a by (simp only: dropWhile_eq_Nil_conv) blast
    qed
  next
    assume "dropWhile isWhiteSpace s = []"
    then show "dropWhile isWhiteSpace (rev (dropWhile isWhiteSpace s)) = []"
      by (simp only: rev.simps dropWhile.simps)
  qed
  then have "trim s = [] \<longleftrightarrow> dropWhile isWhiteSpace s = []"
    by (simp add: trim_def)
  also have "\<dots> \<longleftrightarrow> blank s"
    by (simp only: dropWhile_eq_Nil_conv blank_def list_all_iff)
  finally show ?thesis .
qed

lemma message_cell_no_children_of_class:
  "children_of_class cls (message_cell conv isLoading m i) = []"
  by (simp add: message_cell_def Let_def)

lemma message_cell_no_elements_of_class:
  "elements_of_class cls (message_cell conv isLoading m i) = []"
  by (simp add: message_cell_def Let_def)

lemma cells_no_children_of_class:
  "concat (map (children_of_class cls) (map_index (message_cell conv isLoading) ms)) = []"
  by (simp add: map_index_def message_cell_no_children_of_class split_def)

lemma cells_no_elements_of_class:
  "concat (map (elements_of_class cls) (map_index (message_cell conv isLoading) ms)) = []"
  by (simp add: map_index_def message_cell_no_elements_of_class split_def)

lemma handleSubmit_rejects:
  "blank (input st) \<or> isLoading \<Longrightarrow>
   handleSubmit isLoading st = st\<lparr>calls := calls st @ [PreventDefault]\<rparr>"
  by (auto simp: handleSubmit_def Let_def trim_eq_Nil_iff)

lemma handleSubmit_sends:
  "\<not> blank (input st) \<Longrightarrow> \<not> isLoading \<Longrightarrow>
   handleSubmit isLoading st
     = st\<lparr>calls := calls st @ [PreventDefault, SendMessage (input st)], input := []\<rparr>"
  by (simp add: handleSubmit_def Let_def trim_eq_Nil_iff)

lemma form_controls:
  "children_of_class ''input-form'' (ChatInterface (Some conv) isLoading inp)
     = [TextareaEl inp isLoading,
        if isLoading then ButtonEl ''button'' ''stop-button'' False ''Stop''
        else ButtonEl ''submit'' ''send-button'' (blank inp) ''Send'']"
  by (simp add: ChatInterface_def trim_eq_Nil_iff cells_no_children_of_class
        del: concat_eq_Nil_conv)

text \<open>
  Claim C6. While the loading flag is set a submit attempt, through the form or through
  the Enter key, leaves the input value as it is and hands nothing to \<open>onSendMessage\<close>;
  all it does is prevent the event's default. The form then shows the input box
  disabled and a stop button in place of the send button.
\<close>

theorem C6_submit_while_loading:
  assumes "isLoading"
  shows "input (handleSubmit isLoading st) = input st
       \<and> sent (handleSubmit isLoading st) = sent st
       \<and> calls (handleSubmit isLoading st) = calls st @ [PreventDefault]
       \<and> input (handleKeyDown key shiftKey isLoading st) = input st
       \<and> sent (handleKeyDown key shiftKey isLoading st) = sent st
       \<and> children_of_class ''input-form'' (ChatInterface (Some conv) isLoading inp)
           = [TextareaEl inp True, ButtonEl ''button'' ''stop-button'' False ''Stop'']"
proof -
  have s: "\<And>s. handleSubmit isLoading s = s\<lparr>calls := calls s @ [PreventDefault]\<rparr>"
    using assms by (simp add: handleSubmit_rejects)
  have k: "handleKeyDown key shiftKey isLoading st = st
         \<or> handleKeyDown key shiftKey isLoading st
              = st\<lparr>calls := calls st @ [PreventDefault, PreventDefault]\<rparr>"
    by (simp add: handleKeyDown_def s)
  have 1: "input (handleSubmit isLoading st) = input st" by (simp add: s)
  have 2: "sent (handleSubmit isLoading st) = sent st" by (simp add: s sent_def)
  have 3: "calls (handleSubmit isLoading st) = calls st @ [PreventDefault]" by (simp add: s)
  have 4: "input (handleKeyDown key shiftKey isLoading st) = input st"
    using k by auto
  have 5: "sent (handleKeyDown key shiftKey isLoading st) = sent st"
    using k by (auto simp: sent_def)
  have 6: "children_of_class ''input-form'' (ChatInterface (Some conv) isLoading inp)
           = [TextareaEl inp True, ButtonEl ''button'' ''stop-button'' False ''Stop'']"
    using assms by (simp add: form_controls)
  show ?thesis using 1 2 3 4 5 6 by blast
qed

theorem C6_submit_while_loading_witness:
  "let st = \<lparr>input = [0x68, 0x69], calls = [], timers = [], effect_deps = Some None\<rparr>
   in input (handleSubmit True st) = [0x68, 0x69]
    \<and> sent (handleSubmit True st) = sent st
    \<and> calls (handleSubmit True st) = [PreventDefault]
    \<and> input (handleKeyDown ''Enter'' False True st) = [0x68, 0x69]
    \<and> sent (handleKeyDown ''Enter'' False True st) = sent st
    \<and> children_of_class ''input-form''
         (ChatInterface (Some \<lparr>messages = [] :: nat message list\<rparr>) True [0x68, 0x69])
        = [TextareaEl [0x68, 0x69] True, ButtonEl ''button'' ''stop-button'' False ''Stop'']"
  using C6_submit_while_loading [of True
      "\<lparr>input = [0x68, 0x69], calls = [], timers = [], effect_deps = Some None\<rparr>"
      "''Enter''" False "\<lparr>messages = [] :: nat message list\<rparr>" "[0x68, 0x69]"]
  by (simp add: Let_def)

text \<open>
  Claim C10. A submit attempt on an input that is empty or all white space hands nothing
  to \<open>onSendMessage\<close> and leaves the input value as it is, loading or not; outside a
  generation the send button is disabled for such an input. A submit on any other input
  outside a generation hands \<open>onSendMessage\<close> the input exactly as it stands, untrimmed,
  and resets the input value to the empty string; the send button is enabled for it.
\<close>

theorem C10_blank_and_nonblank_submit:
  "(blank (input st) \<longrightarrow>
      sent (handleSubmit isLoading st) = sent st
    \<and> input (handleSubmit isLoading st) = input st
    \<and> children_of_class ''input-form'' (ChatInterface (Some conv) False (input st))
        = [TextareaEl (input st) False, ButtonEl ''submit'' ''send-button'' True ''Send''])
 \<and> (\<not> blank (input st) \<longrightarrow>
      calls (handleSubmit False st) = calls st @ [PreventDefault, SendMessage (input st)]
    \<and> sent (handleSubmit False st) = sent st @ [input st]
    \<and> input (handleSubmit False st) = []
    \<and> children_of_class ''input-form'' (ChatInterface (Some conv) False (input st))
        = [TextareaEl (input st) False, ButtonEl ''submit'' ''send-button'' False ''Send''])"
proof (intro conjI impI)
  assume b: "blank (input st)"
  then have s: "handleSubmit isLoading st = st\<lparr>calls := calls st @ [PreventDefault]\<rparr>"
    by (simp add: handleSubmit_rejects)
  show "sent (handleSubmit isLoading st) = sent st" by (simp add: s sent_def)
  show "input (handleSubmit isLoading st) = input st" by (simp add: s)
  show "children_of_class ''input-form'' (ChatInterface (Some conv) False (input st))
        = [TextareaEl (input st) False, ButtonEl ''submit'' ''send-button'' True ''Send'']"
    using b by (simp add: form_controls)
next
  assume n: "\<not> blank (input st)"
  then have s: "handleSubmit False st
     = st\<lparr>calls := calls st @ [PreventDefault, SendMessage (input st)], input := []\<rparr>"
    by (simp add: handleSubmit_sends)
  show "calls (handleSubmit False st) = calls st @ [PreventDefault, SendMessage (input st)]"
    by (simp add: s)
  show "sent (handleSubmit False st) = sent st @ [input st]" by (simp add: s sent_def)
  show "input (handleSubmit False st) = []" by (simp add: s)
  show "children_of_class ''input-form'' (ChatInterface (Some conv) False (input st))
        = [TextareaEl (input st) False, ButtonEl ''submit'' ''send-button'' False ''Send'']"
    using n by (simp add: form_controls)
qed

theorem C10_blank_and_nonblank_submit_witness:
  "blank [0x20, 0x3000, 0x0A]
   \<and> sent (handleSubmit False \<lparr>input = [0x20, 0x3000, 0x0A], calls = [], timers = [],
                                 effect_deps = Some None\<rparr>) = []
   \<and> input (handleSubmit False \<lparr>input = [0x20, 0x3000, 0x0A], calls = [], timers = [],
                                  effect_deps = Some None\<rparr>) = [0x20, 0x3000, 0x0A]
   \<and> \<not> blank [0x20, 0x68, 0x69, 0x20]
   \<and> calls (handleSubmit False \<lparr>input = [0x20, 0x68, 0x69, 0x20], calls = [], timers = [],
                                  effect_deps = Some None\<rparr>)
       = [PreventDefault, SendMessage [0x20, 0x68, 0x69, 0x20]]
   \<and> input (handleSubmit False \<lparr>input = [0x20, 0x68, 0x69, 0x20], calls = [], timers = [],
                                  effect_deps = Some None\<rparr>) = []"
proof -
  have b: "blank [0x20, 0x3000, 0x0A]"
    by (simp add: blank_def isWhiteSpace_def)
  have n: "\<not> blank [0x20, 0x68, 0x69, 0x20]"
    by (simp add: blank_def isWhiteSpace_def)
  have e: "sent \<lparr>input = [0x20, 0x3000, 0x0A], calls = [], timers = [], effect_deps = Some None\<rparr> = []"
    by (simp add: sent_def)
  show ?thesis
    using b n e
      C10_blank_and_nonblank_submit [of
        "\<lparr>input = [0x20, 0x3000, 0x0A], calls = [], timers = [], effect_deps = Some None\<rparr>"
        False "\<lparr>messages = [] :: nat message list\<rparr>"]
      C10_blank_and_nonblank_submit [of
        "\<lparr>input = [0x20, 0x68, 0x69, 0x20], calls = [], timers = [], effect_deps = Some None\<rparr>"
        False "\<lparr>messages = [] :: nat message list\<rparr>"]
    by simp
qed

section \<open>Placeholders and the progress indicator\<close>

text \<open>
  Claim C8. With no conversation selected the controller renders the welcome placeholder
  alone and no message cell. With a conversation that has no messages it renders no
  message cell either, and a placeholder of its own, "Start a conversation", as the
  first child of the message container; the two placeholders differ.
\<close>

theorem C8_placeholders:
  "ChatInterface (None :: 'd conversation option) isLoading inp
     = Tag ''div'' ''chat-interface'' [welcome_placeholder]
   \<and> message_cells (ChatInterface (None :: 'd conversation option) isLoading inp) = []
   \<and> (messages (conv :: 'd conversation) = [] \<longrightarrow>
        message_cells (ChatInterface (Some conv) isLoading inp) = []
      \<and> elements_of_class ''empty-state'' (ChatInterface (Some conv) isLoading inp)
          = [start_placeholder]
      \<and> hd (children_of_class ''messages-container'' (ChatInterface (Some conv) isLoading inp))
          = start_placeholder)
   \<and> (start_placeholder :: 'd vnode) \<noteq> welcome_placeholder"
proof -
  have 1: "ChatInterface (None :: 'd conversation option) isLoading inp
             = Tag ''div'' ''chat-interface'' [welcome_placeholder]"
    by (simp add: ChatInterface_def welcome_placeholder_def)
  have 2: "message_cells (ChatInterface (None :: 'd conversation option) isLoading inp) = []"
    by (simp add: ChatInterface_def)
  have 3: "messages conv = [] \<Longrightarrow>
             message_cells (ChatInterface (Some conv) isLoading inp) = []"
    by (simp add: ChatInterface_def)
  have 4: "messages conv = [] \<Longrightarrow>
             elements_of_class ''empty-state'' (ChatInterface (Some conv) isLoading inp)
               = [start_placeholder]"
    by (simp add: ChatInterface_def start_placeholder_def)
  have 5: "messages conv = [] \<Longrightarrow>
             hd (children_of_class ''messages-container'' (ChatInterface (Some conv) isLoading inp))
               = start_placeholder"
    by (simp add: ChatInterface_def start_placeholder_def)
  have 6: "(start_placeholder :: 'd vnode) \<noteq> welcome_placeholder"
    by (simp add: start_placeholder_def welcome_placeholder_def)
  show ?thesis using 1 2 3 4 5 6 by blast
qed

theorem C8_placeholders_witness:
  "messages \<lparr>messages = [] :: nat message list\<rparr> = []
   \<and> ChatInterface (None :: nat conversation option) False []
       = Tag ''div'' ''chat-interface'' [welcome_placeholder]
   \<and> message_cells (ChatInterface (Some \<lparr>messages = [] :: nat message list\<rparr>) False []) = []
   \<and> elements_of_class ''empty-state''
        (ChatInterface (Some \<lparr>messages = [] :: nat message list\<rparr>) False [])
       = [start_placeholder]"
  using C8_placeholders [of False "[]" "\<lparr>messages = [] :: nat message list\<rparr>"]
  by simp

text \<open>
  Claim C9, as stated, fails where no conversation is selected: the controller returns
  the welcome placeholder before it looks at the loading flag, so with the flag set no
  indicator is rendered.
\<close>

theorem C9_counterexample:
  "ChatInterface (None :: nat conversation option) True []
     = Tag ''div'' ''chat-interface'' [welcome_placeholder]
   \<and> elements_of_class ''loading-indicator''
        (ChatInterface (None :: nat conversation option) True []) = []"
  by (simp add: ChatInterface_def welcome_placeholder_def)

text \<open>
  Claim C9, amended. With a conversation selected, the rendered tree holds exactly one
  progress indicator when the loading flag is set and none when it is clear; the
  indicator is the child of the message container right after the last message cell
  (after the start placeholder when there are no messages) and right before the scroll
  anchor. With no conversation selected no indicator is rendered, whatever the flag.
\<close>

theorem C9_loading_indicator:
  "elements_of_class ''loading-indicator'' (ChatInterface (Some conv) isLoading inp)
     = (if isLoading then [loading_indicator] else [])
   \<and> children_of_class ''messages-container'' (ChatInterface (Some conv) isLoading inp)
     = (if messages conv = [] then [start_placeholder]
        else message_cells (ChatInterface (Some conv) isLoading inp))
       @ (if isLoading then [loading_indicator] else [])
       @ [EndRefEl]
   \<and> elements_of_class ''loading-indicator''
        (ChatInterface (None :: 'd conversation option) isLoading inp) = []"
proof -
  have 1: "elements_of_class ''loading-indicator'' (ChatInterface (Some conv) isLoading inp)
     = (if isLoading then [loading_indicator] else [])"
    by (simp add: ChatInterface_def loading_indicator_def cells_no_elements_of_class
          del: concat_eq_Nil_conv)
  have 2: "children_of_class ''messages-container'' (ChatInterface (Some conv) isLoading inp)
     = (if messages conv = [] then [start_placeholder]
        else map_index (message_cell conv isLoading) (messages conv))
       @ (if isLoading then [loading_indicator] else [])
       @ [EndRefEl]"
    by (simp add: ChatInterface_def loading_indicator_def start_placeholder_def)
  have 3: "elements_of_class ''loading-indicator''
             (ChatInterface (None :: 'd conversation option) isLoading inp) = []"
    by (simp add: ChatInterface_def)
  show ?thesis
    using 1 2 3 by (simp add: message_cells_ChatInterface)
qed

theorem C9_loading_indicator_witness:
  "let conv = \<lparr>messages =
         [\<lparr>role = ''assistant'', content = [], loading = None, stage1 = Some (1::nat),
           stage2 = None, stage3 = None, metadata = None\<rparr>]\<rparr>
   in elements_of_class ''loading-indicator'' (ChatInterface (Some conv) True [])
        = [loading_indicator]
    \<and> children_of_class ''messages-container'' (ChatInterface (Some conv) True [])
        = message_cells (ChatInterface (Some conv) True []) @ [loading_indicator, EndRefEl]
    \<and> elements_of_class ''loading-indicator'' (ChatInterface (Some conv) False []) = []"
proof -
  let ?conv = "\<lparr>messages =
         [\<lparr>role = ''assistant'', content = [], loading = None, stage1 = Some (1::nat),
           stage2 = None, stage3 = None, metadata = None\<rparr>]\<rparr>"
  note t = C9_loading_indicator [of ?conv True "[]"]
  note f = C9_loading_indicator [of ?conv False "[]"]
  have 1: "elements_of_class ''loading-indicator'' (ChatInterface (Some ?conv) True [])
             = [loading_indicator]"
    using t [THEN conjunct1] by simp
  have 2: "children_of_class ''messages-container'' (ChatInterface (Some ?conv) True [])
             = message_cells (ChatInterface (Some ?conv) True []) @ [loading_indicator, EndRefEl]"
    using t [THEN conjunct2, THEN conjunct1] by simp
  have 3: "elements_of_class ''loading-indicator'' (ChatInterface (Some ?conv) False []) = []"
    using f [THEN conjunct1] by simp
  show ?thesis
    unfolding Let_def by (intro conjI 1 2 3)
qed

section \<open>Labels without a model in the stage-2 renderer\<close>

text \<open>
  Claim C7. When a ranking names a label that the label-to-model mapping does not hold,
  the stage-2 renderer still returns a fragment, and in the row of that ranking the
  label stands as it is at the place where a model name would stand.
\<close>

theorem C7_unmapped_label_shown_raw:
  assumes "map_of labelToModel label = None"
      and "r \<in> set rankings"
      and "i < length (parsed_ranking r)"
      and "parsed_ranking r ! i = label"
  shows "\<exists>frag names.
           Stage2 rankings labelToModel aggregateRankings = Inr frag
         \<and> (ranking_model r, names) \<in> set (ranking_rows frag)
         \<and> length names = length (parsed_ranking r)
         \<and> names ! i = label
         \<and> aggregate_rows frag = aggregateRankings"
proof -
  let ?names = "map (resolve_label labelToModel) (parsed_ranking r)"
  let ?frag = "\<lparr>ranking_rows =
            map (\<lambda>r. (ranking_model r, map (resolve_label labelToModel) (parsed_ranking r)))
              rankings,
          aggregate_rows = aggregateRankings\<rparr>"
  have "Stage2 rankings labelToModel aggregateRankings = Inr ?frag"
    by (simp add: Stage2_def)
  moreover have "(ranking_model r, ?names) \<in> set (ranking_rows ?frag)"
    using assms(2) by auto
  moreover have "length ?names = length (parsed_ranking r)" by simp
  moreover have "?names ! i = label"
    using assms(1,3,4) by (simp add: resolve_label_def)
  moreover have "aggregate_rows ?frag = aggregateRankings" by simp
  ultimately show ?thesis by blast
qed

theorem C7_unmapped_label_shown_raw_witness:
  "map_of [(''A'', ''m1''), (''B'', ''m2''), (''C'', ''m3''), (''D'', ''m4''), (''E'', ''m5'')] ''F''
     = None
   \<and> (\<exists>frag names.
         Stage2 [\<lparr>ranking_model = ''m1'', parsed_ranking = [''B'', ''F'']\<rparr>]
           [(''A'', ''m1''), (''B'', ''m2''), (''C'', ''m3''), (''D'', ''m4''), (''E'', ''m5'')]
           [''m2'', ''m1''] = Inr frag
       \<and> (ranking_model \<lparr>ranking_model = ''m1'', parsed_ranking = [''B'', ''F'']\<rparr>, names)
            \<in> set (ranking_rows frag)
       \<and> length names
           = length (parsed_ranking \<lparr>ranking_model = ''m1'', parsed_ranking = [''B'', ''F'']\<rparr>)
       \<and> names ! 1 = ''F''
       \<and> aggregate_rows frag = [''m2'', ''m1''])"
proof (rule conjI)
  show "map_of [(''A'', ''m1''), (''B'', ''m2''), (''C'', ''m3''), (''D'', ''m4''), (''E'', ''m5'')] ''F''
     = None"
    by simp
  show "\<exists>frag names.
         Stage2 [\<lparr>ranking_model = ''m1'', parsed_ranking = [''B'', ''F'']\<rparr>]
           [(''A'', ''m1''), (''B'', ''m2''), (''C'', ''m3''), (''D'', ''m4''), (''E'', ''m5'')]
           [''m2'', ''m1''] = Inr frag
       \<and> (ranking_model \<lparr>ranking_model = ''m1'', parsed_ranking = [''B'', ''F'']\<rparr>, names)
            \<in> set (ranking_rows frag)
       \<and> length names
           = length (parsed_ranking \<lparr>ranking_model = ''m1'', parsed_ranking = [''B'', ''F'']\<rparr>)
       \<and> names ! 1 = ''F''
       \<and> aggregate_rows frag = [''m2'', ''m1'']"
    by (rule C7_unmapped_label_shown_raw) simp_all
qed

end
